theory Spec2Isabelle
  imports Complex_Main
begin

section \<open>Python values, exceptions and the operations the adapter applies to them\<close>

text \<open>
  The adapter \<^verbatim>\<open>WeaviateVectorStore\<close> shapes requests for a remote service and unwraps
  its JSON replies. A reply is a Python value built from \<^verbatim>\<open>None\<close>, booleans, numbers,
  strings, lists and dictionaries; a dictionary is kept as an association list, in
  insertion order. An exception is identified by the name of its class.
\<close>

datatype error = Raise string

datatype pyval =
    PNone
  | PBool bool
  | PInt int
  | PFloat real
  | PStr string
  | PList "pyval list"
  | PDict "(string \<times> pyval) list"

text \<open>Truth value of an object, as \<^verbatim>\<open>not x\<close>, \<^verbatim>\<open>if x\<close>, \<^verbatim>\<open>x or y\<close> and \<^verbatim>\<open>assert x\<close> test it.\<close>

fun py_truthy :: "pyval \<Rightarrow> bool" where
  "py_truthy PNone = False"
| "py_truthy (PBool b) = b"
| "py_truthy (PInt i) = (i \<noteq> 0)"
| "py_truthy (PFloat x) = (x \<noteq> 0)"
| "py_truthy (PStr s) = (s \<noteq> [])"
| "py_truthy (PList xs) = (xs \<noteq> [])"
| "py_truthy (PDict kvs) = (kvs \<noteq> [])"

text \<open>\<^verbatim>\<open>x or d\<close>.\<close>

definition py_or :: "pyval \<Rightarrow> pyval \<Rightarrow> pyval" where
  "py_or x d = (if py_truthy x then x else d)"

text \<open>
  \<^verbatim>\<open>x[k]\<close> with a string key: a dictionary raises \<^verbatim>\<open>KeyError\<close> on a missing key, every
  other value raises \<^verbatim>\<open>TypeError\<close> (not subscriptable, or indices must be integers).
\<close>

fun py_getitem :: "pyval \<Rightarrow> string \<Rightarrow> error + pyval" where
  "py_getitem (PDict kvs) k =
     (case map_of kvs k of None \<Rightarrow> Inl (Raise ''KeyError'') | Some v \<Rightarrow> Inr v)"
| "py_getitem _ k = Inl (Raise ''TypeError'')"

text \<open>\<^verbatim>\<open>x.get(k, d)\<close>: only a dictionary has the method.\<close>

fun py_get :: "pyval \<Rightarrow> string \<Rightarrow> pyval \<Rightarrow> error + pyval" where
  "py_get (PDict kvs) k d = Inr (case map_of kvs k of None \<Rightarrow> d | Some v \<Rightarrow> v)"
| "py_get _ k d = Inl (Raise ''AttributeError'')"

text \<open>\<^verbatim>\<open>x.items()\<close>.\<close>

fun py_items :: "pyval \<Rightarrow> error + (string \<times> pyval) list" where
  "py_items (PDict kvs) = Inr kvs"
| "py_items _ = Inl (Raise ''AttributeError'')"

text \<open>
  \<^verbatim>\<open>for item in x\<close>: a list yields its elements, a dictionary its keys, a string its
  characters; the other values are not iterable.
\<close>

fun py_iter :: "pyval \<Rightarrow> error + pyval list" where
  "py_iter (PList xs) = Inr xs"
| "py_iter (PDict kvs) = Inr (map (\<lambda>kv. PStr (fst kv)) kvs)"
| "py_iter (PStr s) = Inr (map (\<lambda>c. PStr [c]) s)"
| "py_iter _ = Inl (Raise ''TypeError'')"

text \<open>Sequencing of computations that may raise.\<close>

definition bind_err :: "error + 'a \<Rightarrow> ('a \<Rightarrow> error + 'b) \<Rightarrow> error + 'b" where
  "bind_err r f = (case r of Inl e \<Rightarrow> Inl e | Inr x \<Rightarrow> f x)"

text \<open>A list comprehension \<^verbatim>\<open>[f(item) for item in items]\<close>: the first exception ends it.\<close>

fun map_err :: "('a \<Rightarrow> error + 'b) \<Rightarrow> 'a list \<Rightarrow> error + 'b list" where
  "map_err f [] = Inr []"
| "map_err f (x # xs) =
     bind_err (f x) (\<lambda>y. bind_err (map_err f xs) (\<lambda>ys. Inr (y # ys)))"

section \<open>The payload types (types.py)\<close>

record VectorIndexQuery =
  embedding :: "real list"
  top_k :: int

record VectorIndexQueryResult =
  similarities :: pyval
  ids :: pyval
  others :: pyval

record ObjectPropertyDeletionPayload =
  uuid :: string
  properties_to_delete :: "string list"

record SearchQueryPayload =
  sq_query :: string
  sq_properties :: pyval
  sq_limit :: int
  sq_autocut :: "int option"
  sq_additional :: pyval

record GenerativeSearchPayload =
  gs_query :: string
  gs_prompt :: string
  gs_properties :: pyval
  gs_limit :: int
  gs_grouped_task :: bool
  gs_grouped_properties :: pyval

record LabelBasedSearchPayload =
  lb_properties :: pyval
  lb_filters :: pyval
  lb_limit :: int

text \<open>
  The \<^verbatim>\<open>__init__\<close> that \<^verbatim>\<open>@dataclass\<close> generates for a class whose fields have no
  default: positional arguments fill the fields in declaration order, keyword arguments
  fill them by name, and the call raises \<^verbatim>\<open>TypeError\<close> when there are too many
  positional arguments, when a keyword names no field or a field already filled, and when
  a field is left without a value.
\<close>

definition dataclass_init ::
  "string list \<Rightarrow> pyval list \<Rightarrow> (string \<times> pyval) list \<Rightarrow> error + (string \<times> pyval) list" where
  "dataclass_init names pos kw =
     (if length names < length pos then Inl (Raise ''TypeError'')
      else let bound = zip names pos in
        if list_all (\<lambda>k. k \<in> set names \<and> k \<notin> set (map fst bound)) (map fst kw)
           \<and> distinct (map fst kw)
           \<and> list_all (\<lambda>f. f \<in> set (map fst (bound @ kw))) names
        then Inr (bound @ kw)
        else Inl (Raise ''TypeError''))"

text \<open>
  \<^verbatim>\<open>VectorIndexQueryResult\<close> declares three fields, \<^verbatim>\<open>similarities\<close>, \<^verbatim>\<open>ids\<close> and
  \<^verbatim>\<open>others\<close>, none with a default.
\<close>

definition mk_VectorIndexQueryResult ::
  "pyval list \<Rightarrow> (string \<times> pyval) list \<Rightarrow> error + VectorIndexQueryResult" where
  "mk_VectorIndexQueryResult pos kw =
     bind_err (dataclass_init [''similarities'', ''ids'', ''others''] pos kw)
       (\<lambda>b. case (map_of b ''similarities'', map_of b ''ids'', map_of b ''others'') of
              (Some x, Some y, Some z) \<Rightarrow> Inr \<lparr>similarities = x, ids = y, others = z\<rparr>
            | _ \<Rightarrow> Inl (Raise ''TypeError''))"

section \<open>The remote client\<close>

text \<open>
  The Weaviate client library is not part of the repository. Its operations are
  parameters of the model: each one runs on the state \<open>'s\<close> of the remote service and
  either returns a value or raises. A GraphQL request is the class, the properties asked
  for and the clauses the \<^verbatim>\<open>with_...\<close> calls added, in call order; \<^verbatim>\<open>.do()\<close> sends it.
\<close>

type_synonym ('a, 's) io = "'s \<Rightarrow> (error + 'a) \<times> 's"

definition return_io :: "'a \<Rightarrow> ('a, 's) io" where
  "return_io x = (\<lambda>s. (Inr x, s))"

definition lift_io :: "error + 'a \<Rightarrow> ('a, 's) io" where
  "lift_io r = (\<lambda>s. (r, s))"

definition bind_io :: "('a, 's) io \<Rightarrow> ('a \<Rightarrow> ('b, 's) io) \<Rightarrow> ('b, 's) io" where
  "bind_io m f = (\<lambda>s. case m s of (Inl e, s') \<Rightarrow> (Inl e, s') | (Inr x, s') \<Rightarrow> f x s')"

datatype clause =
    With_near_vector pyval
  | With_limit pyval
  | With_bm25 pyval pyval
  | With_autocut pyval
  | With_hybrid pyval
  | With_additional pyval
  | With_near_text pyval
  | With_generate_grouped pyval pyval
  | With_generate_single pyval
  | With_where pyval

datatype gql = Get string pyval "clause list"

text \<open>\<^verbatim>\<open>client.query.get(class_name, properties)\<close> starts a request with no clause.\<close>

definition query_get :: "string \<Rightarrow> pyval \<Rightarrow> gql" where
  "query_get c ps = Get c ps []"

fun with_clause :: "gql \<Rightarrow> clause \<Rightarrow> gql" where
  "with_clause (Get c ps cs) x = Get c ps (cs @ [x])"

record 's weaviate_client =
  schema_get :: "(pyval, 's) io"
  schema_exists :: "string \<Rightarrow> (pyval, 's) io"
  schema_delete_class :: "string \<Rightarrow> (pyval, 's) io"
  schema_create_class :: "pyval \<Rightarrow> (pyval, 's) io"
  data_object_get_by_id :: "string \<Rightarrow> (pyval, 's) io"
  data_object_replace :: "pyval \<Rightarrow> string \<Rightarrow> string \<Rightarrow> (pyval, 's) io"
  query_do :: "gql \<Rightarrow> (pyval, 's) io"

section \<open>WeaviateVectorStore (weaviate.py)\<close>

record 's WeaviateVectorStore =
  collection_name :: string
  api_key :: pyval
  api_url :: pyval
  client :: "'s weaviate_client"

text \<open>The request \<^verbatim>\<open>query\<close> builds: near-vector search, all properties, limit \<^verbatim>\<open>top_k\<close>.\<close>

definition query_request :: "string \<Rightarrow> VectorIndexQuery \<Rightarrow> gql" where
  "query_request cn q =
     with_clause
       (with_clause (query_get cn (PList [PStr ''*'']))
          (With_near_vector (PDict [(''vector'', PList (map PFloat (embedding q)))])))
       (With_limit (PInt (top_k q)))"

definition query_unwrap :: "string \<Rightarrow> pyval \<Rightarrow> error + VectorIndexQueryResult" where
  "query_unwrap cn response =
     bind_err (py_get response ''data'' (PDict [])) (\<lambda>data.
     bind_err (py_get data ''Get'' (PDict [])) (\<lambda>g.
     bind_err (py_get g cn (PList [])) (\<lambda>results.
     bind_err (bind_err (py_iter results)
                 (map_err (\<lambda>item. bind_err (py_getitem item ''_additional'')
                                     (\<lambda>a. py_getitem a ''distance'')))) (\<lambda>similarities.
     bind_err (bind_err (py_iter results) (map_err (\<lambda>item. py_getitem item ''id''))) (\<lambda>ids.
     mk_VectorIndexQueryResult [PList similarities, PList ids] [])))))"

definition query ::
  "'s WeaviateVectorStore \<Rightarrow> VectorIndexQuery \<Rightarrow> (VectorIndexQueryResult, 's) io" where
  "query self q =
     bind_io (query_do (client self) (query_request (collection_name self) q))
       (\<lambda>response. lift_io (query_unwrap (collection_name self) response))"

text \<open>
  \<^verbatim>\<open>__init__\<close>. The module global \<^verbatim>\<open>_weaviate_init_done\<close> is the first component of
  the state, the remote service the second. \<^verbatim>\<open>try_to_import_weaviate_client\<close> (defined
  outside these files) and the constructor \<^verbatim>\<open>weaviate.Client\<close> are parameters, as are
  the keyword arguments and \<^verbatim>\<open>os.environ\<close>. The local variable \<^verbatim>\<open>client\<close> is bound
  only inside the \<^verbatim>\<open>if\<close>; reading it unbound raises \<^verbatim>\<open>UnboundLocalError\<close>.
\<close>

record 's weaviate_lib =
  try_to_import_weaviate_client :: "error + unit"
  Client :: "pyval \<Rightarrow> pyval \<Rightarrow> error + 's weaviate_client"

definition kwargs_get :: "(string \<times> pyval) list \<Rightarrow> string \<Rightarrow> pyval" where
  "kwargs_get kwargs k = (case map_of kwargs k of None \<Rightarrow> PNone | Some v \<Rightarrow> v)"

definition environ_get :: "(string \<times> string) list \<Rightarrow> string \<Rightarrow> pyval" where
  "environ_get environ k = (case map_of environ k of None \<Rightarrow> PNone | Some v \<Rightarrow> PStr v)"

definition connect_once ::
  "'s weaviate_lib \<Rightarrow> pyval \<Rightarrow> pyval \<Rightarrow> ('s weaviate_client option, bool \<times> 's) io" where
  "connect_once lib url key = (\<lambda>(init_done, s).
     if \<not> init_done then
       (case Client lib url key of
          Inl e \<Rightarrow> (Inl e, (init_done, s))
        | Inr c \<Rightarrow>
            (case schema_get c s of
               (Inl e, s') \<Rightarrow> (Inl e, (init_done, s'))
             | (Inr _, s') \<Rightarrow> (Inr (Some c), (True, s'))))
     else (Inr None, (init_done, s)))"

definition init ::
  "'s weaviate_lib \<Rightarrow> (string \<times> string) list \<Rightarrow> string \<Rightarrow> (string \<times> pyval) list
     \<Rightarrow> ('s WeaviateVectorStore, bool \<times> 's) io" where
  "init lib environ cn kwargs =
     bind_io (lift_io (try_to_import_weaviate_client lib)) (\<lambda>_.
     let k0 = kwargs_get kwargs ''WEAVIATE_API_KEY'';
         key = (if \<not> py_truthy k0 then environ_get environ ''WEAVIATE_API_KEY'' else k0)
     in if \<not> py_truthy key then lift_io (Inl (Raise ''AssertionError''))
     else
       let u0 = kwargs_get kwargs ''WEAVIATE_API_URL'';
           url = (if \<not> py_truthy u0 then environ_get environ ''WEAVIATE_API_URL'' else u0)
       in if \<not> py_truthy url then lift_io (Inl (Raise ''AssertionError''))
       else
         bind_io (connect_once lib url key) (\<lambda>local_client.
           case local_client of
             None \<Rightarrow> lift_io (Inl (Raise ''UnboundLocalError''))
           | Some c \<Rightarrow>
               return_io \<lparr>collection_name = cn, api_key = key, api_url = url, client = c\<rparr>))"

text \<open>\<^verbatim>\<open>create\<close>; the caller's defaults are \<^verbatim>\<open>"text2vec-openai"\<close>, \<^verbatim>\<open>None\<close>, \<^verbatim>\<open>None\<close>.\<close>

definition collection_obj :: "string \<Rightarrow> pyval \<Rightarrow> pyval \<Rightarrow> pyval \<Rightarrow> pyval" where
  "collection_obj cn vectorizer properties module_config =
     PDict [(''class'', PStr cn),
            (''properties'', py_or properties (PList [])),
            (''vectorizer'', vectorizer),
            (''moduleConfig'', py_or module_config (PDict []))]"

definition create ::
  "'s WeaviateVectorStore \<Rightarrow> pyval \<Rightarrow> pyval \<Rightarrow> pyval \<Rightarrow> (pyval, 's) io" where
  "create self vectorizer properties module_config =
     bind_io (schema_exists (client self) (collection_name self)) (\<lambda>ex.
     bind_io (if py_truthy ex
              then schema_delete_class (client self) (collection_name self)
              else return_io PNone) (\<lambda>_.
     bind_io (schema_create_class (client self)
                (collection_obj (collection_name self) vectorizer properties module_config))
       (\<lambda>_. return_io PNone)))"

text \<open>\<^verbatim>\<open>delete\<close> takes no argument besides \<^verbatim>\<open>self\<close>.\<close>

definition delete :: "'s WeaviateVectorStore \<Rightarrow> (pyval, 's) io" where
  "delete self =
     bind_io (schema_delete_class (client self) (collection_name self)) (\<lambda>_. return_io PNone)"

text \<open>\<^verbatim>\<open>persist\<close> is inherited from \<^verbatim>\<open>VectorStore\<close>: \<^verbatim>\<open>return None\<close>.\<close>

definition persist :: "'s WeaviateVectorStore \<Rightarrow> (pyval, 's) io" where
  "persist self = return_io PNone"

text \<open>\<^verbatim>\<open>delete_object_properties\<close>.\<close>

definition updated_properties :: "string list \<Rightarrow> (string \<times> pyval) list \<Rightarrow> (string \<times> pyval) list" where
  "updated_properties to_delete object_data =
     filter (\<lambda>(key, value). key \<notin> set to_delete) object_data"

definition delete_object_properties ::
  "'s WeaviateVectorStore \<Rightarrow> ObjectPropertyDeletionPayload \<Rightarrow> (pyval, 's) io" where
  "delete_object_properties self payload =
     bind_io (data_object_get_by_id (client self) (uuid payload)) (\<lambda>obj.
     bind_io (lift_io (bind_err (py_getitem obj ''properties'') py_items)) (\<lambda>object_data.
     bind_io (data_object_replace (client self)
                (PDict (updated_properties (properties_to_delete payload) object_data))
                (collection_name self) (uuid payload))
       (\<lambda>_. return_io PNone)))"

text \<open>
  The four searches. Three of them read \<^verbatim>\<open>data['Get'][name]\<close>, the last one
  \<^verbatim>\<open>data.get('Get', {}).get(name, [])\<close>.
\<close>

definition search_unwrap :: "string \<Rightarrow> pyval \<Rightarrow> error + VectorIndexQueryResult" where
  "search_unwrap cn response =
     bind_err (py_get response ''data'' (PDict [])) (\<lambda>data.
     bind_err (py_getitem data ''Get'') (\<lambda>g.
     bind_err (py_getitem g cn) (\<lambda>results.
     mk_VectorIndexQueryResult [PList [], PList []] [(''others'', results)])))"

definition label_unwrap :: "string \<Rightarrow> pyval \<Rightarrow> error + VectorIndexQueryResult" where
  "label_unwrap cn response =
     bind_err (py_get response ''data'' (PDict [])) (\<lambda>data.
     bind_err (py_get data ''Get'' (PDict [])) (\<lambda>g.
     bind_err (py_get g cn (PList [])) (\<lambda>results.
     mk_VectorIndexQueryResult [PList [], PList []] [(''others'', results)])))"

definition keyword_request :: "string \<Rightarrow> SearchQueryPayload \<Rightarrow> gql" where
  "keyword_request cn payload =
     (let search_query =
            with_clause (query_get cn (sq_properties payload))
              (With_bm25 (PStr (sq_query payload)) (sq_properties payload));
          search_query =
            (case sq_autocut payload of
               None \<Rightarrow> search_query
             | Some a \<Rightarrow> with_clause search_query (With_autocut (PInt a)))
      in with_clause search_query (With_limit (PInt (sq_limit payload))))"

definition keyword_search ::
  "'s WeaviateVectorStore \<Rightarrow> SearchQueryPayload \<Rightarrow> (VectorIndexQueryResult, 's) io" where
  "keyword_search self payload =
     bind_io (query_do (client self) (keyword_request (collection_name self) payload))
       (\<lambda>response. lift_io (search_unwrap (collection_name self) response))"

definition hybrid_request :: "string \<Rightarrow> SearchQueryPayload \<Rightarrow> gql" where
  "hybrid_request cn payload =
     with_clause
       (with_clause
          (with_clause (query_get cn (sq_properties payload))
             (With_hybrid (PStr (sq_query payload))))
          (With_limit (PInt (sq_limit payload))))
       (With_additional (PList [PStr ''distance'']))"

definition hybrid_search ::
  "'s WeaviateVectorStore \<Rightarrow> SearchQueryPayload \<Rightarrow> (VectorIndexQueryResult, 's) io" where
  "hybrid_search self payload =
     bind_io (query_do (client self) (hybrid_request (collection_name self) payload))
       (\<lambda>response. lift_io (search_unwrap (collection_name self) response))"

definition generative_request :: "string \<Rightarrow> GenerativeSearchPayload \<Rightarrow> gql" where
  "generative_request cn payload =
     (let search_query =
            with_clause (query_get cn (gs_properties payload))
              (With_near_text (PDict [(''concepts'', PList [PStr (gs_query payload)])]));
          search_query =
            (if gs_grouped_task payload
             then with_clause search_query
                    (With_generate_grouped (PStr (gs_prompt payload))
                       (gs_grouped_properties payload))
             else with_clause search_query (With_generate_single (PStr (gs_prompt payload))))
      in with_clause search_query (With_limit (PInt (gs_limit payload))))"

definition generative_search ::
  "'s WeaviateVectorStore \<Rightarrow> GenerativeSearchPayload \<Rightarrow> (VectorIndexQueryResult, 's) io" where
  "generative_search self payload =
     bind_io (query_do (client self) (generative_request (collection_name self) payload))
       (\<lambda>response. lift_io (search_unwrap (collection_name self) response))"

definition label_request :: "string \<Rightarrow> LabelBasedSearchPayload \<Rightarrow> gql" where
  "label_request cn payload =
     with_clause
       (with_clause (query_get cn (lb_properties payload)) (With_where (lb_filters payload)))
       (With_limit (PInt (lb_limit payload)))"

definition label_based_search ::
  "'s WeaviateVectorStore \<Rightarrow> LabelBasedSearchPayload \<Rightarrow> (VectorIndexQueryResult, 's) io" where
  "label_based_search self payload =
     bind_io (query_do (client self) (label_request (collection_name self) payload))
       (\<lambda>response. lift_io (label_unwrap (collection_name self) response))"

section \<open>A remote service held in memory\<close>

text \<open>
  A concrete client to run the adapter on. The service keeps, per class, the class object
  it was created from and the properties of each object by uuid; it answers every GraphQL
  request with the reply it holds and records the request. Deleting a class that does not
  exist is accepted; creating one that exists, or replacing an object that does not, is
  refused with the exception the client library raises on an HTTP error status.
\<close>

record remote =
  classes :: "(string \<times> pyval \<times> (string \<times> pyval) list) list"
  reply :: pyval
  received :: "gql list"

definition has_class :: "remote \<Rightarrow> string \<Rightarrow> bool" where
  "has_class s n = (n \<in> set (map fst (classes s)))"

definition object_table :: "remote \<Rightarrow> (string \<times> pyval) list" where
  "object_table s =
     concat (map (\<lambda>(n, cfg, objs).
               map (\<lambda>(u, props).
                     (u, PDict [(''class'', PStr n), (''id'', PStr u), (''properties'', props)]))
                 objs)
            (classes s))"

definition mem_schema_get :: "(pyval, remote) io" where
  "mem_schema_get = (\<lambda>s. (Inr (PDict [(''classes'', PList (map (\<lambda>c. fst (snd c)) (classes s)))]), s))"

definition mem_schema_exists :: "string \<Rightarrow> (pyval, remote) io" where
  "mem_schema_exists n = (\<lambda>s. (Inr (PBool (has_class s n)), s))"

definition mem_schema_delete_class :: "string \<Rightarrow> (pyval, remote) io" where
  "mem_schema_delete_class n =
     (\<lambda>s. (Inr PNone, s\<lparr>classes := filter (\<lambda>c. fst c \<noteq> n) (classes s)\<rparr>))"

definition mem_schema_create_class :: "pyval \<Rightarrow> (pyval, remote) io" where
  "mem_schema_create_class obj =
     (\<lambda>s. case py_getitem obj ''class'' of
             Inr (PStr n) \<Rightarrow>
               if has_class s n then (Inl (Raise ''UnexpectedStatusCodeException''), s)
               else (Inr PNone, s\<lparr>classes := classes s @ [(n, obj, [])]\<rparr>)
           | _ \<Rightarrow> (Inl (Raise ''UnexpectedStatusCodeException''), s))"

definition mem_get_by_id :: "string \<Rightarrow> (pyval, remote) io" where
  "mem_get_by_id u =
     (\<lambda>s. (Inr (case map_of (object_table s) u of None \<Rightarrow> PNone | Some obj \<Rightarrow> obj), s))"

definition mem_replace :: "pyval \<Rightarrow> string \<Rightarrow> string \<Rightarrow> (pyval, remote) io" where
  "mem_replace d c u =
     (\<lambda>s. case map_of (classes s) c of
             None \<Rightarrow> (Inl (Raise ''UnexpectedStatusCodeException''), s)
           | Some (cfg, objs) \<Rightarrow>
               if u \<in> set (map fst objs)
               then (Inr PNone,
                     s\<lparr>classes :=
                         map (\<lambda>(n, cfg', objs').
                               if n = c
                               then (n, cfg', map (\<lambda>(v, props). if v = u then (v, d) else (v, props)) objs')
                               else (n, cfg', objs'))
                           (classes s)\<rparr>)
               else (Inl (Raise ''UnexpectedStatusCodeException''), s))"

definition mem_query_do :: "gql \<Rightarrow> (pyval, remote) io" where
  "mem_query_do q = (\<lambda>s. (Inr (reply s), s\<lparr>received := received s @ [q]\<rparr>))"

definition mem_client :: "remote weaviate_client" where
  "mem_client =
     \<lparr>schema_get = mem_schema_get,
      schema_exists = mem_schema_exists,
      schema_delete_class = mem_schema_delete_class,
      schema_create_class = mem_schema_create_class,
      data_object_get_by_id = mem_get_by_id,
      data_object_replace = mem_replace,
      query_do = mem_query_do\<rparr>"

definition mem_lib :: "remote weaviate_lib" where
  "mem_lib = \<lparr>try_to_import_weaviate_client = Inr (), Client = (\<lambda>url key. Inr mem_client)\<rparr>"

text \<open>The reply of a GraphQL \<^verbatim>\<open>Get\<close> on class \<open>cn\<close> that found \<open>results\<close>.\<close>

definition get_reply :: "string \<Rightarrow> pyval \<Rightarrow> pyval" where
  "get_reply cn results = PDict [(''data'', PDict [(''Get'', PDict [(cn, results)])])]"

definition docs_store :: "remote WeaviateVectorStore" where
  "docs_store =
     \<lparr>collection_name = ''Docs'', api_key = PStr ''key'', api_url = PStr ''url'',
      client = mem_client\<rparr>"

definition empty_remote :: remote where
  "empty_remote = \<lparr>classes = [], reply = get_reply ''Docs'' (PList []), received = []\<rparr>"

definition docs_remote :: remote where
  "docs_remote =
     \<lparr>classes =
        [(''Docs'', collection_obj ''Docs'' (PStr ''none'') PNone PNone,
          [(''u1'', PDict [(''title'', PStr ''a''), (''year'', PInt 2020), (''tag'', PStr ''x'')])])],
      reply = get_reply ''Docs'' (PList [PDict [(''title'', PStr ''a'')]]),
      received = []\<rparr>"

definition docs_kwargs :: "(string \<times> pyval) list" where
  "docs_kwargs = [(''WEAVIATE_API_KEY'', PStr ''key''), (''WEAVIATE_API_URL'', PStr ''url'')]"

definition docs_keyword :: SearchQueryPayload where
  "docs_keyword =
     \<lparr>sq_query = ''a'', sq_properties = PList [PStr ''title''], sq_limit = 10,
      sq_autocut = None, sq_additional = PNone\<rparr>"

text \<open>
  Two states in which the uuid \<^verbatim>\<open>u1\<close> is held by a class other than the store's: in
  the first both \<^verbatim>\<open>Other\<close> and \<^verbatim>\<open>Docs\<close> hold an object of that uuid, in the second
  only \<^verbatim>\<open>Other\<close> does.
\<close>

definition shared_uuid_remote :: remote where
  "shared_uuid_remote =
     \<lparr>classes =
        [(''Other'', collection_obj ''Other'' (PStr ''none'') PNone PNone,
          [(''u1'', PDict [(''alien'', PInt 1)])]),
         (''Docs'', collection_obj ''Docs'' (PStr ''none'') PNone PNone,
          [(''u1'', PDict [(''keep'', PStr ''k''), (''year'', PInt 2020)])])],
      reply = get_reply ''Docs'' (PList []),
      received = []\<rparr>"

definition other_class_remote :: remote where
  "other_class_remote =
     \<lparr>classes =
        [(''Other'', collection_obj ''Other'' (PStr ''none'') PNone PNone,
          [(''u1'', PDict [(''keep'', PStr ''k''), (''year'', PInt 2020)])]),
         (''Docs'', collection_obj ''Docs'' (PStr ''none'') PNone PNone, [])],
      reply = get_reply ''Docs'' (PList []),
      received = []\<rparr>"

section \<open>What the adapter expects of the remote schema\<close>

text \<open>
  The schema operations of a remote service as \<^verbatim>\<open>create\<close> relies on them: \<^verbatim>\<open>exists\<close>
  answers with a boolean and changes nothing; deleting a class that exists succeeds and the
  class is gone; creating a class whose name is free succeeds, the class then exists, and
  deleting it again gives back the state before the creation.
\<close>

definition schema_laws :: "'s weaviate_client \<Rightarrow> bool" where
  "schema_laws api \<longleftrightarrow>
     (\<forall>n s. \<exists>b. schema_exists api n s = (Inr (PBool b), s))
   \<and> (\<forall>n s. schema_exists api n s = (Inr (PBool True), s) \<longrightarrow>
          (\<exists>s'. schema_delete_class api n s = (Inr PNone, s')
              \<and> schema_exists api n s' = (Inr (PBool False), s')))
   \<and> (\<forall>n obj s. py_getitem obj ''class'' = Inr (PStr n)
          \<and> schema_exists api n s = (Inr (PBool False), s) \<longrightarrow>
          (\<exists>s'. schema_create_class api obj s = (Inr PNone, s')
              \<and> schema_exists api n s' = (Inr (PBool True), s')
              \<and> schema_delete_class api n s' = (Inr PNone, s)))"

section \<open>Properties\<close>

lemmas io_defs = bind_io_def lift_io_def return_io_def

lemmas mem_defs =
  mem_client_def mem_schema_get_def mem_schema_exists_def mem_schema_delete_class_def
  mem_schema_create_class_def mem_get_by_id_def mem_replace_def mem_query_do_def
  has_class_def object_table_def

lemma bind_err_Inl [simp]: "bind_err (Inl e) f = Inl e"
  by (simp add: bind_err_def)

lemma bind_err_Inr [simp]: "bind_err (Inr x) f = f x"
  by (simp add: bind_err_def)

lemma bind_err_eq_Inr:
  "bind_err r f = Inr y \<longleftrightarrow> (\<exists>x. r = Inr x \<and> f x = Inr y)"
  by (cases r) simp_all

lemma py_getitem_get: "py_getitem x k = Inr v \<Longrightarrow> py_get x k d = Inr v"
  by (cases x) (auto split: option.splits)

subsection \<open>The result constructor\<close>

lemma mk_result_two_positional:
  "mk_VectorIndexQueryResult [a, b] [] = Inl (Raise ''TypeError'')"
  by (simp add: mk_VectorIndexQueryResult_def dataclass_init_def)

lemma mk_result_others_keyword:
  "mk_VectorIndexQueryResult [a, b] [(''others'', c)]
     = Inr \<lparr>similarities = a, ids = b, others = c\<rparr>"
  by (simp add: mk_VectorIndexQueryResult_def dataclass_init_def)

subsection \<open>query\<close>

lemma query_unwrap_raises: "\<exists>e. query_unwrap cn response = Inl e"
proof (cases "query_unwrap cn response")
  case (Inl e)
  then show ?thesis by blast
next
  case (Inr r)
  then have False
    unfolding query_unwrap_def
    by (auto simp: bind_err_eq_Inr mk_result_two_positional)
  then show ?thesis ..
qed

text \<open>
  C1. \<^verbatim>\<open>query\<close> is to return a \<^verbatim>\<open>VectorIndexQueryResult\<close> with ids and similarities of
  equal length, at most \<^verbatim>\<open>top_k\<close> of them. It never returns one: whatever the remote
  client answers, \<^verbatim>\<open>query\<close> ends in an exception, because the result is constructed from
  two positional arguments while the dataclass has three fields without default.
\<close>

theorem query_never_returns: "\<exists>e. fst (query self q s) = Inl e"
proof (cases "query_do (client self) (query_request (collection_name self) q) s")
  case (Pair r s')
  show ?thesis
  proof (cases r)
    case (Inl e)
    with Pair show ?thesis by (simp add: query_def bind_io_def)
  next
    case (Inr response)
    obtain e where "query_unwrap (collection_name self) response = Inl e"
      using query_unwrap_raises by blast
    with Pair Inr show ?thesis by (simp add: query_def bind_io_def lift_io_def)
  qed
qed

text \<open>
  C2. A query with \<^verbatim>\<open>top_k = 0\<close> is to return an empty result without an error. On a
  remote that answers with an empty list of objects, \<^verbatim>\<open>query\<close> raises \<^verbatim>\<open>TypeError\<close>
  after the request was sent.
\<close>

theorem query_top_k_zero_raises:
  "query docs_store \<lparr>embedding = [1, 0], top_k = 0\<rparr> empty_remote
     = (Inl (Raise ''TypeError''),
        empty_remote\<lparr>received := [query_request ''Docs'' \<lparr>embedding = [1, 0], top_k = 0\<rparr>]\<rparr>)"
  by (simp add: query_def io_defs mem_defs docs_store_def empty_remote_def get_reply_def
        query_unwrap_def mk_result_two_positional)

text \<open>
  C6 as stated fails: a query vector of norm zero does not end in \<^verbatim>\<open>InvalidVector\<close>. The
  vector reaches the remote service as it is, and the exception that ends the call is
  the \<^verbatim>\<open>TypeError\<close> of the result constructor.
\<close>

theorem query_zero_norm_not_InvalidVector:
  "fst (query docs_store \<lparr>embedding = [0, 0], top_k = 1\<rparr> empty_remote)
     \<noteq> Inl (Raise ''InvalidVector'')
   \<and> received (snd (query docs_store \<lparr>embedding = [0, 0], top_k = 1\<rparr> empty_remote))
     = [Get ''Docs'' (PList [PStr ''*''])
          [With_near_vector (PDict [(''vector'', PList [PFloat 0, PFloat 0])]),
           With_limit (PInt 1)]]"
  by (simp add: query_def query_request_def query_get_def io_defs mem_defs docs_store_def
        empty_remote_def get_reply_def query_unwrap_def mk_result_two_positional)

text \<open>
  C6, amended. The adapter computes no distance and checks no vector: for every
  embedding, of norm zero or not, the effect of \<^verbatim>\<open>query\<close> on the remote service is that
  of one near-vector request that carries the embedding unchanged, asks for all
  properties and limits the answer to \<^verbatim>\<open>top_k\<close>.
\<close>

theorem query_forwards_embedding:
  "snd (query self q s)
     = snd (query_do (client self)
              (Get (collection_name self) (PList [PStr ''*''])
                 [With_near_vector (PDict [(''vector'', PList (map PFloat (embedding q)))]),
                  With_limit (PInt (top_k q))]) s)"
proof (cases "query_do (client self) (query_request (collection_name self) q) s")
  case (Pair r s')
  then show ?thesis
    by (cases r) (simp_all add: query_def query_request_def query_get_def io_defs)
qed

subsection \<open>The four searches\<close>

lemma search_unwrap_Inr:
  "search_unwrap cn response = Inr r \<Longrightarrow> similarities r = PList [] \<and> ids r = PList []"
  by (auto simp: search_unwrap_def bind_err_eq_Inr mk_result_others_keyword)

lemma label_unwrap_Inr:
  "label_unwrap cn response = Inr r \<Longrightarrow> similarities r = PList [] \<and> ids r = PList []"
  by (auto simp: label_unwrap_def bind_err_eq_Inr mk_result_others_keyword)

lemma search_unwrap_reply:
  "py_getitem response ''data'' = Inr data \<Longrightarrow> py_getitem data ''Get'' = Inr g \<Longrightarrow>
   py_getitem g cn = Inr results \<Longrightarrow>
   search_unwrap cn response = Inr \<lparr>similarities = PList [], ids = PList [], others = results\<rparr>"
  by (simp add: search_unwrap_def py_getitem_get mk_result_others_keyword)

lemma label_unwrap_reply:
  "py_getitem response ''data'' = Inr data \<Longrightarrow> py_getitem data ''Get'' = Inr g \<Longrightarrow>
   py_getitem g cn = Inr results \<Longrightarrow>
   label_unwrap cn response = Inr \<lparr>similarities = PList [], ids = PList [], others = results\<rparr>"
  by (simp add: label_unwrap_def py_getitem_get mk_result_others_keyword)

lemma bind_lift_Inr:
  "fst (bind_io m (\<lambda>x. lift_io (f x)) s) = Inr r \<Longrightarrow> \<exists>x. f x = Inr r"
  by (cases "m s") (auto simp: io_defs split: sum.splits)

text \<open>
  C10. Let \<open>f\<close> be one of \<^verbatim>\<open>keyword_search\<close>, \<^verbatim>\<open>hybrid_search\<close>, \<^verbatim>\<open>generative_search\<close>
  and \<^verbatim>\<open>label_based_search\<close>, applied to the store and a payload. Every result \<open>f\<close>
  returns has empty \<^verbatim>\<open>similarities\<close> and \<^verbatim>\<open>ids\<close>; and when the remote service answers
  with a reply that holds \<open>results\<close> under \<^verbatim>\<open>data\<close>, \<^verbatim>\<open>Get\<close> and the collection's name,
  \<open>f\<close> returns the result whose \<^verbatim>\<open>others\<close> is \<open>results\<close> and whose two lists are empty.
\<close>

theorem searches_fill_only_others:
  assumes "f = keyword_search self sp \<or> f = hybrid_search self sp
         \<or> f = generative_search self gp \<or> f = label_based_search self lp"
  shows "(\<forall>r. fst (f s) = Inr r \<longrightarrow> similarities r = PList [] \<and> ids r = PList [])
       \<and> ((\<forall>req. fst (query_do (client self) req s) = Inr response)
            \<and> py_getitem response ''data'' = Inr data
            \<and> py_getitem data ''Get'' = Inr g
            \<and> py_getitem g (collection_name self) = Inr results
          \<longrightarrow> fst (f s) = Inr \<lparr>similarities = PList [], ids = PList [], others = results\<rparr>)"
proof (intro conjI allI impI)
  fix r assume "fst (f s) = Inr r"
  with assms have "(\<exists>x. search_unwrap (collection_name self) x = Inr r)
                 \<or> (\<exists>x. label_unwrap (collection_name self) x = Inr r)"
    unfolding keyword_search_def hybrid_search_def generative_search_def label_based_search_def
    by (auto dest: bind_lift_Inr)
  then show "similarities r = PList []" and "ids r = PList []"
    using search_unwrap_Inr label_unwrap_Inr by blast+
next
  assume h: "(\<forall>req. fst (query_do (client self) req s) = Inr response)
            \<and> py_getitem response ''data'' = Inr data
            \<and> py_getitem data ''Get'' = Inr g
            \<and> py_getitem g (collection_name self) = Inr results"
  then have run: "\<And>req. \<exists>s'. query_do (client self) req s = (Inr response, s')"
    by (metis prod.collapse)
  have run': "fst (bind_io (query_do (client self) req) (\<lambda>x. lift_io (u x)) s) = u response"
    for req and u :: "pyval \<Rightarrow> error + VectorIndexQueryResult"
    using run [of req] by (auto simp: io_defs)
  from h have "search_unwrap (collection_name self) response
                 = Inr \<lparr>similarities = PList [], ids = PList [], others = results\<rparr>"
      and "label_unwrap (collection_name self) response
                 = Inr \<lparr>similarities = PList [], ids = PList [], others = results\<rparr>"
    by (simp_all add: search_unwrap_reply label_unwrap_reply)
  with assms show "fst (f s) = Inr \<lparr>similarities = PList [], ids = PList [], others = results\<rparr>"
    unfolding keyword_search_def hybrid_search_def generative_search_def label_based_search_def
    by (auto simp: run')
qed

text \<open>An instance: a keyword search on a remote that answers with one object.\<close>

theorem searches_fill_only_others_witness:
  "fst (keyword_search docs_store docs_keyword docs_remote)
     = Inr \<lparr>similarities = PList [], ids = PList [],
            others = PList [PDict [(''title'', PStr ''a'')]]\<rparr>
   \<and> similarities (projr (fst (keyword_search docs_store docs_keyword docs_remote))) = PList []
   \<and> ids (projr (fst (keyword_search docs_store docs_keyword docs_remote))) = PList []"
  using searches_fill_only_others
          [of "keyword_search docs_store docs_keyword" docs_store docs_keyword _ _
              docs_remote "reply docs_remote"
              "PDict [(''Get'', PDict [(''Docs'', PList [PDict [(''title'', PStr ''a'')]])])]"
              "PDict [(''Docs'', PList [PDict [(''title'', PStr ''a'')]])]"
              "PList [PDict [(''title'', PStr ''a'')]]"]
  by (simp add: mem_defs docs_store_def docs_remote_def get_reply_def)

subsection \<open>Construction\<close>

text \<open>Once the module flag is set, a construction that gets past its assertions fails.\<close>

lemma init_after_first:
  "try_to_import_weaviate_client lib = Inr () \<Longrightarrow>
   py_truthy (kwargs_get kwargs ''WEAVIATE_API_KEY'')
     \<or> py_truthy (environ_get environ ''WEAVIATE_API_KEY'') \<Longrightarrow>
   py_truthy (kwargs_get kwargs ''WEAVIATE_API_URL'')
     \<or> py_truthy (environ_get environ ''WEAVIATE_API_URL'') \<Longrightarrow>
   init lib environ cn kwargs (True, s) = (Inl (Raise ''UnboundLocalError''), (True, s))"
  by (auto simp: init_def connect_once_def io_defs Let_def)

text \<open>
  C8. Every construction with the API key and the URL available is to complete and bind
  the client, the constructions after the first one included. With both given as
  keyword arguments, the first construction in a process succeeds and sets
  \<^verbatim>\<open>_weaviate_init_done\<close>; the second one, with the same arguments, raises
  \<^verbatim>\<open>UnboundLocalError\<close>, since \<^verbatim>\<open>client\<close> is assigned only when the flag is not yet set.
\<close>

theorem second_construction_raises:
  "init mem_lib [] ''Docs'' docs_kwargs (False, empty_remote)
     = (Inr docs_store, (True, empty_remote))
   \<and> init mem_lib [] ''Docs'' docs_kwargs (True, empty_remote)
     = (Inl (Raise ''UnboundLocalError''), (True, empty_remote))"
  by (simp add: init_def connect_once_def io_defs mem_defs mem_lib_def kwargs_get_def
        environ_get_def docs_kwargs_def docs_store_def Let_def)

subsection \<open>create\<close>

lemma filter_absent: "n \<notin> fst ` set xs \<Longrightarrow> filter (\<lambda>c. fst c \<noteq> n) xs = xs"
  by (induction xs) auto

lemma mem_client_schema_laws: "schema_laws mem_client"
  unfolding schema_laws_def
  by (auto simp: mem_defs filter_absent split: sum.splits pyval.splits)

lemma collection_obj_class:
  "py_getitem (collection_obj cn v p m) ''class'' = Inr (PStr cn)"
  by (simp add: collection_obj_def)

text \<open>
  C9. On a remote whose schema operations behave as \<open>schema_laws\<close> says, \<^verbatim>\<open>create\<close>
  returns from every state: if a class of the collection's name exists (\<open>b\<close>), it is
  deleted first; the class is then created in a state \<open>s0\<close> that has no class of that
  name, from the object built of the arguments; and calling \<^verbatim>\<open>create\<close> a second time with
  the same arguments ends in the same state with the same result as calling it once.
\<close>

theorem create_fresh_and_idempotent:
  assumes "schema_laws (client self)"
  shows "\<exists>b s0 s1.
           schema_exists (client self) (collection_name self) s = (Inr (PBool b), s)
         \<and> (if b then schema_delete_class (client self) (collection_name self) s = (Inr PNone, s0)
            else s0 = s)
         \<and> schema_exists (client self) (collection_name self) s0 = (Inr (PBool False), s0)
         \<and> schema_create_class (client self)
               (collection_obj (collection_name self) vectorizer properties module_config) s0
             = (Inr PNone, s1)
         \<and> create self vectorizer properties module_config s = (Inr PNone, s1)
         \<and> bind_io (create self vectorizer properties module_config)
               (\<lambda>_. create self vectorizer properties module_config) s
             = create self vectorizer properties module_config s"
proof -
  let ?api = "client self" and ?cn = "collection_name self"
  let ?obj = "collection_obj ?cn vectorizer properties module_config"
  have ex: "\<And>s. \<exists>b. schema_exists ?api ?cn s = (Inr (PBool b), s)"
    using assms unfolding schema_laws_def by blast
  have del: "\<And>s. schema_exists ?api ?cn s = (Inr (PBool True), s) \<Longrightarrow>
          \<exists>s'. schema_delete_class ?api ?cn s = (Inr PNone, s')
              \<and> schema_exists ?api ?cn s' = (Inr (PBool False), s')"
    using assms unfolding schema_laws_def by blast
  have cr: "\<And>s. schema_exists ?api ?cn s = (Inr (PBool False), s) \<Longrightarrow>
          \<exists>s'. schema_create_class ?api ?obj s = (Inr PNone, s')
              \<and> schema_exists ?api ?cn s' = (Inr (PBool True), s')
              \<and> schema_delete_class ?api ?cn s' = (Inr PNone, s)"
    using assms collection_obj_class unfolding schema_laws_def by blast
  obtain b where b: "schema_exists ?api ?cn s = (Inr (PBool b), s)"
    using ex by blast
  obtain s0 where s0: "schema_exists ?api ?cn s0 = (Inr (PBool False), s0)"
      and pre: "if b then schema_delete_class ?api ?cn s = (Inr PNone, s0) else s0 = s"
  proof (cases b)
    case True
    with b have "schema_exists ?api ?cn s = (Inr (PBool True), s)" by simp
    from del [OF this] obtain s' where "schema_delete_class ?api ?cn s = (Inr PNone, s')"
        "schema_exists ?api ?cn s' = (Inr (PBool False), s')" by blast
    with True that show ?thesis by simp
  next
    case False
    with b that show ?thesis by simp
  qed
  from cr [OF s0] obtain s1 where
      s1: "schema_create_class ?api ?obj s0 = (Inr PNone, s1)"
      and ex1: "schema_exists ?api ?cn s1 = (Inr (PBool True), s1)"
      and del1: "schema_delete_class ?api ?cn s1 = (Inr PNone, s0)"
    by blast
  have once: "create self vectorizer properties module_config s = (Inr PNone, s1)"
    using b pre s1 by (cases b) (simp_all add: create_def io_defs)
  have again: "create self vectorizer properties module_config s1 = (Inr PNone, s1)"
    using ex1 del1 s1 by (simp add: create_def io_defs)
  have twice: "bind_io (create self vectorizer properties module_config)
               (\<lambda>_. create self vectorizer properties module_config) s
             = create self vectorizer properties module_config s"
    using once again by (simp add: bind_io_def)
  from b pre s0 s1 once twice show ?thesis by blast
qed

text \<open>
  An instance: the class \<^verbatim>\<open>Docs\<close> exists and holds an object; after \<^verbatim>\<open>create\<close>, called
  once or twice, it holds none.
\<close>

theorem create_fresh_and_idempotent_witness:
  "schema_laws (client docs_store)
   \<and> create docs_store (PStr ''none'') PNone PNone docs_remote
       = (Inr PNone,
          docs_remote\<lparr>classes := [(''Docs'', collection_obj ''Docs'' (PStr ''none'') PNone PNone, [])]\<rparr>)
   \<and> bind_io (create docs_store (PStr ''none'') PNone PNone)
         (\<lambda>_. create docs_store (PStr ''none'') PNone PNone) docs_remote
       = create docs_store (PStr ''none'') PNone PNone docs_remote"
proof -
  have laws: "schema_laws (client docs_store)"
    by (simp add: docs_store_def mem_client_schema_laws)
  have run: "create docs_store (PStr ''none'') PNone PNone docs_remote
       = (Inr PNone,
          docs_remote\<lparr>classes := [(''Docs'', collection_obj ''Docs'' (PStr ''none'') PNone PNone, [])]\<rparr>)"
    by (simp add: create_def io_defs mem_defs docs_store_def docs_remote_def collection_obj_def
          py_or_def)
  from create_fresh_and_idempotent
         [OF laws, where vectorizer = "PStr ''none''" and properties = PNone
            and module_config = PNone and s = docs_remote]
  have "bind_io (create docs_store (PStr ''none'') PNone PNone)
         (\<lambda>_. create docs_store (PStr ''none'') PNone PNone) docs_remote
       = create docs_store (PStr ''none'') PNone PNone docs_remote"
    by blast
  with laws run show ?thesis by blast
qed

subsection \<open>delete\<close>

text \<open>
  C5 as stated fails: \<^verbatim>\<open>delete\<close> takes no id, and a second call on a remote that accepts
  the repeated request succeeds like the first, returning \<^verbatim>\<open>None\<close>.
\<close>

theorem delete_twice_succeeds:
  "delete docs_store docs_remote = (Inr PNone, docs_remote\<lparr>classes := []\<rparr>)
   \<and> delete docs_store (docs_remote\<lparr>classes := []\<rparr>) = (Inr PNone, docs_remote\<lparr>classes := []\<rparr>)"
  by (simp add: delete_def io_defs mem_defs docs_store_def docs_remote_def)

text \<open>
  C5, amended. \<^verbatim>\<open>delete\<close> takes no id and asks the remote service to delete the whole
  class of the collection's name, once per call. When the remote accepts the request
  the call returns \<^verbatim>\<open>None\<close>, a repeated call included; when the remote client raises,
  the call raises the same exception; it never returns \<^verbatim>\<open>False\<close>. The state after the
  call is the state the remote is in after that one request.
\<close>

theorem delete_passes_remote_outcome:
  "delete self s =
     (case schema_delete_class (client self) (collection_name self) s of
        (Inl e, s') \<Rightarrow> (Inl e, s')
      | (Inr v, s') \<Rightarrow> (Inr PNone, s'))
   \<and> fst (delete self s) \<noteq> Inr (PBool False)"
proof (cases "schema_delete_class (client self) (collection_name self) s")
  case (Pair r s')
  then show ?thesis
    by (cases r) (simp_all add: delete_def io_defs)
qed

lemma persist_no_effect: "persist self s = (Inr PNone, s)"
  by (simp add: persist_def return_io_def)

subsection \<open>delete_object_properties\<close>

lemma map_of_updated_properties:
  "map_of (updated_properties ks d) k = (if k \<in> set ks then None else map_of d k)"
  unfolding updated_properties_def
  by (induction d) auto

text \<open>
  What the call hands to the remote: when the object fetched for the uuid has the
  dictionary \<open>object_data\<close> as its \<^verbatim>\<open>properties\<close>, the call ends with one
  \<^verbatim>\<open>replace\<close>, in the collection's class, by a dictionary \<open>updated\<close> in which every key
  named in \<^verbatim>\<open>properties_to_delete\<close> is absent and every other key has the value it had
  in \<open>object_data\<close>. The object is fetched by uuid alone, without the class.
\<close>

lemma delete_object_properties_request:
  assumes "data_object_get_by_id (client self) (uuid payload) s = (Inr obj, s1)"
      and "py_getitem obj ''properties'' = Inr (PDict object_data)"
  shows "\<exists>updated.
           delete_object_properties self payload s
             = bind_io (data_object_replace (client self) (PDict updated)
                          (collection_name self) (uuid payload))
                 (\<lambda>_. return_io PNone) s1
         \<and> (\<forall>key. map_of updated key
                    = (if key \<in> set (properties_to_delete payload) then None
                       else map_of object_data key))"
proof (intro exI conjI allI)
  show "delete_object_properties self payload s
          = bind_io (data_object_replace (client self)
                       (PDict (updated_properties (properties_to_delete payload) object_data))
                       (collection_name self) (uuid payload))
              (\<lambda>_. return_io PNone) s1"
    using assms by (simp add: delete_object_properties_def io_defs)
  show "map_of (updated_properties (properties_to_delete payload) object_data) key
          = (if key \<in> set (properties_to_delete payload) then None else map_of object_data key)"
    for key
    by (rule map_of_updated_properties)
qed

text \<open>
  When the uuid is held by the store's class only, the object loses the named property
  and keeps the others: \<^verbatim>\<open>u1\<close> has \<^verbatim>\<open>title\<close>, \<^verbatim>\<open>year\<close> and \<^verbatim>\<open>tag\<close>, and deleting
  \<^verbatim>\<open>year\<close> leaves the other two with their values.
\<close>

lemma delete_object_properties_one_class:
  "delete_object_properties docs_store \<lparr>uuid = ''u1'', properties_to_delete = [''year'']\<rparr>
       docs_remote
     = (Inr PNone,
        docs_remote\<lparr>classes :=
          [(''Docs'', collection_obj ''Docs'' (PStr ''none'') PNone PNone,
            [(''u1'', PDict [(''title'', PStr ''a''), (''tag'', PStr ''x'')])])]\<rparr>)"
  using delete_object_properties_request
          [of docs_store "\<lparr>uuid = ''u1'', properties_to_delete = [''year'']\<rparr>" docs_remote
              "PDict [(''class'', PStr ''Docs''), (''id'', PStr ''u1''),
                      (''properties'',
                       PDict [(''title'', PStr ''a''), (''year'', PInt 2020), (''tag'', PStr ''x'')])]"
              docs_remote
              "[(''title'', PStr ''a''), (''year'', PInt 2020), (''tag'', PStr ''x'')]"]
  by (simp add: delete_object_properties_def updated_properties_def io_defs mem_defs
        docs_store_def docs_remote_def)

text \<open>
  C4. \<^verbatim>\<open>delete_object_properties\<close> is to remove exactly the named properties from
  the object of the given uuid and to leave its other properties unchanged. It fetches
  the object by uuid alone and replaces in the store's class. When \<^verbatim>\<open>Other\<close> and
  \<^verbatim>\<open>Docs\<close> both hold the uuid \<^verbatim>\<open>u1\<close>, deleting \<^verbatim>\<open>year\<close> through the \<^verbatim>\<open>Docs\<close> store
  overwrites the \<^verbatim>\<open>Docs\<close> object with the properties of the \<^verbatim>\<open>Other\<close> object: \<^verbatim>\<open>keep\<close>,
  which was not named, is lost. When only \<^verbatim>\<open>Other\<close> holds \<^verbatim>\<open>u1\<close>, the call raises and
  removes nothing.
\<close>

theorem delete_object_properties_wrong_object:
  "delete_object_properties docs_store \<lparr>uuid = ''u1'', properties_to_delete = [''year'']\<rparr>
       shared_uuid_remote
     = (Inr PNone,
        shared_uuid_remote\<lparr>classes :=
          [(''Other'', collection_obj ''Other'' (PStr ''none'') PNone PNone,
            [(''u1'', PDict [(''alien'', PInt 1)])]),
           (''Docs'', collection_obj ''Docs'' (PStr ''none'') PNone PNone,
            [(''u1'', PDict [(''alien'', PInt 1)])])]\<rparr>)
   \<and> delete_object_properties docs_store \<lparr>uuid = ''u1'', properties_to_delete = [''year'']\<rparr>
       other_class_remote
     = (Inl (Raise ''UnexpectedStatusCodeException''), other_class_remote)"
  by (simp add: delete_object_properties_def updated_properties_def io_defs mem_defs
        docs_store_def shared_uuid_remote_def other_class_remote_def)

end
